theory Spec2Isabelle
  imports Complex_Main
begin

section \<open>Values shared by both detector modules\<close>

text \<open>
  The exceptions the modelled code can raise. \<open>OtherError\<close> stands for whatever an
  implementation of an abstract method, or an input validator, raises on its own.
\<close>

datatype error =
    ValueError
  | AttributeError
  | NotFittedError
  | AxisError
  | OtherError string

text \<open>
  A NumPy \<open>float64\<close>. Finite values are carried as exact reals: rounding, overflow to
  infinity and the sign of zero are not modelled. The special values are, since the
  comparisons and divisions of the code treat them apart.
\<close>

datatype float64 = Fin real | PInf | NInf | NaN

text \<open>\<open>a > b\<close>, \<open>a <= b\<close> and \<open>a == b\<close> on floats: every comparison with NaN is false.\<close>

fun fgt :: "float64 \<Rightarrow> float64 \<Rightarrow> bool" where
  "fgt NaN _ = False"
| "fgt _ NaN = False"
| "fgt (Fin a) (Fin b) = (a > b)"
| "fgt PInf PInf = False"
| "fgt PInf _ = True"
| "fgt NInf _ = False"
| "fgt (Fin a) PInf = False"
| "fgt (Fin a) NInf = True"

fun feq :: "float64 \<Rightarrow> float64 \<Rightarrow> bool" where
  "feq NaN _ = False"
| "feq _ NaN = False"
| "feq a b = (a = b)"

definition fle :: "float64 \<Rightarrow> float64 \<Rightarrow> bool" where
  "fle a b = (a \<noteq> NaN \<and> b \<noteq> NaN \<and> \<not> fgt a b)"

text \<open>
  Float arithmetic on these values: NaN propagates, \<open>inf - inf\<close>, \<open>0 * inf\<close>, \<open>0 / 0\<close>
  and \<open>inf / inf\<close> are NaN, and a non-zero value divided by zero is an infinity. NumPy
  reports the invalid operations with a RuntimeWarning, which is not an exception.
\<close>

fun fadd :: "float64 \<Rightarrow> float64 \<Rightarrow> float64" where
  "fadd NaN _ = NaN"
| "fadd _ NaN = NaN"
| "fadd (Fin a) (Fin b) = Fin (a + b)"
| "fadd PInf NInf = NaN"
| "fadd NInf PInf = NaN"
| "fadd PInf _ = PInf"
| "fadd NInf _ = NInf"
| "fadd (Fin a) b = b"

fun fmul :: "float64 \<Rightarrow> float64 \<Rightarrow> float64" where
  "fmul NaN _ = NaN"
| "fmul _ NaN = NaN"
| "fmul (Fin a) (Fin b) = Fin (a * b)"
| "fmul (Fin a) PInf = (if a = 0 then NaN else if a > 0 then PInf else NInf)"
| "fmul (Fin a) NInf = (if a = 0 then NaN else if a > 0 then NInf else PInf)"
| "fmul PInf (Fin b) = (if b = 0 then NaN else if b > 0 then PInf else NInf)"
| "fmul NInf (Fin b) = (if b = 0 then NaN else if b > 0 then NInf else PInf)"
| "fmul PInf PInf = PInf"
| "fmul NInf NInf = PInf"
| "fmul PInf NInf = NInf"
| "fmul NInf PInf = NInf"

fun fdiv :: "float64 \<Rightarrow> float64 \<Rightarrow> float64" where
  "fdiv NaN _ = NaN"
| "fdiv _ NaN = NaN"
| "fdiv (Fin a) (Fin b) =
     (if b \<noteq> 0 then Fin (a / b)
      else if a = 0 then NaN else if a > 0 then PInf else NInf)"
| "fdiv (Fin a) _ = Fin 0"
| "fdiv PInf (Fin b) = (if b \<ge> 0 then PInf else NInf)"
| "fdiv NInf (Fin b) = (if b \<ge> 0 then NInf else PInf)"
| "fdiv _ _ = NaN"

text \<open>\<open>a / b\<close> on two \<open>np.int64\<close> scalars: true division, with a float result.\<close>

definition true_divide :: "int \<Rightarrow> int \<Rightarrow> float64" where
  "true_divide a b = fdiv (Fin (of_int a)) (Fin (of_int b))"

text \<open>\<open>np.max\<close> of a one-dimensional array: NaN propagates, the empty array is an error.\<close>

definition fmax :: "float64 \<Rightarrow> float64 \<Rightarrow> float64" where
  "fmax a b = (if a = NaN \<or> b = NaN then NaN else if fgt b a then b else a)"

fun np_max :: "float64 list \<Rightarrow> error + float64" where
  "np_max [] = Inl ValueError"
| "np_max (x # xs) = Inr (fold (\<lambda>y m. fmax m y) xs x)"

text \<open>
  A NumPy array of one or two dimensions; a two-dimensional array is the list of its
  rows.
\<close>

datatype 'a ndarray = Arr1 "'a list" | Arr2 "'a list list"

fun map_ndarray :: "('a \<Rightarrow> 'b) \<Rightarrow> 'a ndarray \<Rightarrow> 'b ndarray" where
  "map_ndarray f (Arr1 xs) = Arr1 (map f xs)"
| "map_ndarray f (Arr2 rows) = Arr2 (map (map f) rows)"

fun elements :: "'a ndarray \<Rightarrow> 'a set" where
  "elements (Arr1 xs) = set xs"
| "elements (Arr2 rows) = (\<Union>r \<in> set rows. set r)"

text \<open>\<open>.astype(np.int32)\<close> on a boolean array.\<close>

definition astype_int32 :: "bool ndarray \<Rightarrow> int ndarray" where
  "astype_int32 = map_ndarray (\<lambda>b. if b then 1 else 0)"

text \<open>
  NumPy broadcasting of a binary operation over two one-dimensional operands: equal
  lengths pair up, a length-one operand is stretched, anything else is a ValueError.
\<close>

definition broadcast :: "('a \<Rightarrow> 'b \<Rightarrow> 'c) \<Rightarrow> 'a list \<Rightarrow> 'b list \<Rightarrow> error + 'c list" where
  "broadcast f xs ys =
     (if length xs = length ys then Inr (map2 f xs ys)
      else case (xs, ys) of
             ([x], _) \<Rightarrow> Inr (map (f x) ys)
           | (_, [y]) \<Rightarrow> Inr (map (\<lambda>x. f x y) xs)
           | _ \<Rightarrow> Inl ValueError)"

text \<open>Apply a fallible function to every row, stopping at the first error.\<close>

fun traverse :: "('a \<Rightarrow> error + 'b) \<Rightarrow> 'a list \<Rightarrow> error + 'b list" where
  "traverse f [] = Inr []"
| "traverse f (x # xs) =
     (case f x of
        Inl e \<Rightarrow> Inl e
      | Inr y \<Rightarrow> (case traverse f xs of Inl e \<Rightarrow> Inl e | Inr ys \<Rightarrow> Inr (y # ys)))"

section \<open>kenchi/base.py\<close>

text \<open>
  The value of the attribute \<open>_threshold\<close>: a Python float, or an array with one
  boundary per column.
\<close>

datatype threshold_value = Scalar float64 | PerColumn "float64 list"

text \<open>\<open>isinstance(self._threshold, float)\<close>\<close>

fun isinstance_float :: "threshold_value \<Rightarrow> bool" where
  "isinstance_float (Scalar _) = True"
| "isinstance_float (PerColumn _) = False"

text \<open>\<open>scores > self._threshold\<close>, elementwise with broadcasting.\<close>

fun np_greater :: "float64 ndarray \<Rightarrow> threshold_value \<Rightarrow> error + bool ndarray" where
  "np_greater a (Scalar t) = Inr (map_ndarray (\<lambda>x. fgt x t) a)"
| "np_greater (Arr1 xs) (PerColumn ts) = map_sum id Arr1 (broadcast fgt xs ts)"
| "np_greater (Arr2 rows) (PerColumn ts) =
     map_sum id Arr2 (traverse (\<lambda>r. broadcast fgt r ts) rows)"

text \<open>\<open>np.any(a, axis=1)\<close>: a one-dimensional array has no axis 1.\<close>

fun np_any_axis1 :: "bool ndarray \<Rightarrow> error + bool ndarray" where
  "np_any_axis1 (Arr1 _) = Inl AxisError"
| "np_any_axis1 (Arr2 rows) = Inr (Arr1 (map (\<lambda>r. \<exists>b \<in> set r. b) rows))"

text \<open>
  A detector object: the parameters a concrete subclass keeps, and the attribute
  \<open>_threshold\<close>, which is \<open>None\<close> here while the object has no such attribute.
\<close>

record 'p detector =
  params :: 'p
  underscore_threshold :: "threshold_value option"

text \<open>
  What \<open>BaseDetector\<close> and \<open>DetectorMixin\<close> call without defining: the two abstract
  methods and scikit-learn's validators. A method takes \<open>self\<close> and returns it, as it may
  assign to its attributes before it returns or raises.
\<close>

record ('p, 'x) detector_class =
  check_array :: "'x \<Rightarrow> error + 'x"
  check_X_y :: "'x \<Rightarrow> int list \<Rightarrow> error + ('x \<times> int list)"
  compute_anomaly_score :: "'p detector \<Rightarrow> 'x \<Rightarrow> 'p detector \<times> (error + float64 ndarray)"
  fit :: "'p detector \<Rightarrow> 'x \<Rightarrow> int list option \<Rightarrow> 'p detector \<times> (error + unit)"

text \<open>Reading \<open>self._threshold\<close>.\<close>

definition get_underscore_threshold :: "'p detector \<Rightarrow> error + threshold_value" where
  "get_underscore_threshold self =
     (case underscore_threshold self of None \<Rightarrow> Inl AttributeError | Some t \<Rightarrow> Inr t)"

text \<open>
  \<open>BaseDetector.predict\<close>. The attribute is read for the \<open>isinstance\<close> test, and again
  after \<open>compute_anomaly_score\<close> has returned, as the operand of \<open>>\<close>.
\<close>

definition predict ::
  "('p, 'x) detector_class \<Rightarrow> 'p detector \<Rightarrow> 'x \<Rightarrow> 'p detector \<times> (error + int ndarray)" where
  "predict cls self X =
     (case check_array cls X of
        Inl e \<Rightarrow> (self, Inl e)
      | Inr X1 \<Rightarrow>
        (case get_underscore_threshold self of
           Inl e \<Rightarrow> (self, Inl e)
         | Inr t0 \<Rightarrow>
           (case compute_anomaly_score cls self X1 of
              (self1, Inl e) \<Rightarrow> (self1, Inl e)
            | (self1, Inr a) \<Rightarrow>
              (case get_underscore_threshold self1 of
                 Inl e \<Rightarrow> (self1, Inl e)
               | Inr t \<Rightarrow>
                 (case np_greater a t of
                    Inl e \<Rightarrow> (self1, Inl e)
                  | Inr b \<Rightarrow>
                    if isinstance_float t0 then (self1, Inr (astype_int32 b))
                    else (case np_any_axis1 b of
                            Inl e \<Rightarrow> (self1, Inl e)
                          | Inr c \<Rightarrow> (self1, Inr (astype_int32 c))))))))"

text \<open>\<open>BaseDetector.fit_predict\<close>: \<open>self.fit(X, y).predict(X)\<close>; \<open>fit\<close> returns \<open>self\<close>.\<close>

definition fit_predict ::
  "('p, 'x) detector_class \<Rightarrow> 'p detector \<Rightarrow> 'x \<Rightarrow> int list option
     \<Rightarrow> 'p detector \<times> (error + int ndarray)" where
  "fit_predict cls self X y =
     (case fit cls self X y of
        (self1, Inl e) \<Rightarrow> (self1, Inl e)
      | (self1, Inr _) \<Rightarrow> predict cls self1 X)"

text \<open>
  \<open>sklearn.metrics.confusion_matrix(y_true, y_pred, labels)\<close>: entry \<open>(i, j)\<close> counts the
  samples whose true label is \<open>labels[i]\<close> and whose predicted label is \<open>labels[j]\<close>;
  samples with another label are left out. It rejects a prediction that is not
  one-dimensional, operands of different lengths, and a \<open>y_true\<close> holding none of the
  labels.
\<close>

definition count_pairs :: "int list \<Rightarrow> int list \<Rightarrow> int \<Rightarrow> int \<Rightarrow> int" where
  "count_pairs y_true y_pred i j =
     int (length (filter (\<lambda>(t, q). t = i \<and> q = j) (zip y_true y_pred)))"

definition confusion_matrix :: "int list \<Rightarrow> int ndarray \<Rightarrow> int list \<Rightarrow> error + int list list" where
  "confusion_matrix y_true y_pred labels =
     (case y_pred of
        Arr2 _ \<Rightarrow> Inl ValueError
      | Arr1 p \<Rightarrow>
          if length y_true \<noteq> length p then Inl ValueError
          else if \<forall>l \<in> set labels. l \<notin> set y_true then Inl ValueError
          else Inr (map (\<lambda>i. map (\<lambda>j. count_pairs y_true p i j) labels) labels))"

text \<open>
  \<open>DetectorMixin.score\<close>. \<open>np.ravel\<close> lays the matrix out row by row, and the tuple
  assignment needs exactly four values.
\<close>

definition score ::
  "('p, 'x) detector_class \<Rightarrow> 'p detector \<Rightarrow> 'x \<Rightarrow> int list \<Rightarrow> 'p detector \<times> (error + float64)" where
  "score cls self X y =
     (case check_X_y cls X y of
        Inl e \<Rightarrow> (self, Inl e)
      | Inr (X1, y1) \<Rightarrow>
        (case predict cls self X1 of
           (self1, Inl e) \<Rightarrow> (self1, Inl e)
         | (self1, Inr p) \<Rightarrow>
           (case confusion_matrix y1 p [1, 0] of
              Inl e \<Rightarrow> (self1, Inl e)
            | Inr cnf_matrix \<Rightarrow>
              (case concat cnf_matrix of
                 [tp, fn, fp, tn] \<Rightarrow>
                   let r0 = true_divide tn (fp + tn);
                       r1 = true_divide tp (tp + fn)
                   in (self1, Inr (fdiv (fmul (fmul (Fin 2) r0) r1) (fadd r0 r1)))
               | _ \<Rightarrow> (self1, Inl ValueError)))))"

section \<open>kenchi/outlier\_detection/base.py\<close>

text \<open>
  A detector object of this module: the attribute \<open>threshold_\<close> is \<open>None\<close> here while
  the object has no such attribute.
\<close>

record 'p od_detector =
  od_params :: 'p
  threshold_underscore :: "float64 option"

text \<open>
  The abstract methods \<open>predict\<close> and \<open>fit_predict\<close> call. \<open>X\<close> is optional in
  \<open>anomaly_score\<close>; \<open>'kw\<close> stands for the keyword arguments \<open>**fit_params\<close>.
\<close>

record ('p, 'x, 'kw) od_detector_class =
  od_fit :: "'p od_detector \<Rightarrow> 'x \<Rightarrow> 'kw \<Rightarrow> 'p od_detector \<times> (error + unit)"
  anomaly_score :: "'p od_detector \<Rightarrow> 'x option \<Rightarrow> 'p od_detector \<times> (error + float64 ndarray)"

text \<open>\<open>check_is_fitted(self, 'threshold_')\<close>: NotFittedError unless the attribute exists.\<close>

definition check_is_fitted :: "'p od_detector \<Rightarrow> error + unit" where
  "check_is_fitted self = (if threshold_underscore self = None then Inl NotFittedError else Inr ())"

text \<open>Reading \<open>self.threshold_\<close>.\<close>

definition get_threshold_underscore :: "'p od_detector \<Rightarrow> error + float64" where
  "get_threshold_underscore self =
     (case threshold_underscore self of None \<Rightarrow> Inl AttributeError | Some t \<Rightarrow> Inr t)"

text \<open>\<open>np.where(a <= threshold, 1, -1)\<close>\<close>

definition np_where_le :: "float64 ndarray \<Rightarrow> float64 \<Rightarrow> int ndarray" where
  "np_where_le a t = map_ndarray (\<lambda>x. if fle x t then 1 else - 1) a"

text \<open>\<open>BaseDetector.predict\<close> of this module.\<close>

definition od_predict ::
  "('p, 'x, 'kw) od_detector_class \<Rightarrow> 'p od_detector \<Rightarrow> 'x option \<Rightarrow> float64 option
     \<Rightarrow> 'p od_detector \<times> (error + int ndarray)" where
  "od_predict cls self X threshold =
     (case check_is_fitted self of
        Inl e \<Rightarrow> (self, Inl e)
      | Inr _ \<Rightarrow>
        (case (case threshold of None \<Rightarrow> get_threshold_underscore self | Some t \<Rightarrow> Inr t) of
           Inl e \<Rightarrow> (self, Inl e)
         | Inr t \<Rightarrow>
           (case anomaly_score cls self X of
              (self1, Inl e) \<Rightarrow> (self1, Inl e)
            | (self1, Inr a) \<Rightarrow> (self1, Inr (np_where_le a t)))))"

text \<open>
  \<open>BaseDetector.fit_predict\<close> of this module:
  \<open>self.fit(X, **fit_params).predict(threshold=threshold)\<close>. \<open>predict\<close> is called without
  \<open>X\<close>, which is then \<open>None\<close>.
\<close>

definition od_fit_predict ::
  "('p, 'x, 'kw) od_detector_class \<Rightarrow> 'p od_detector \<Rightarrow> 'x \<Rightarrow> float64 option \<Rightarrow> 'kw
     \<Rightarrow> 'p od_detector \<times> (error + int ndarray)" where
  "od_fit_predict cls self X threshold fit_params =
     (case od_fit cls self X fit_params of
        (self1, Inl e) \<Rightarrow> (self1, Inl e)
      | (self1, Inr _) \<Rightarrow> od_predict cls self1 None threshold)"

section \<open>The composition that fit\_predict is compared with\<close>

text \<open>
  Not code of the repository: \<open>fit(X)\<close> followed by \<open>predict(X)\<close> on the same detector, with
  no threshold supplied, written out for each module. An exception of \<open>fit\<close> ends the
  sequence.
\<close>

definition fit_then_predict ::
  "('p, 'x) detector_class \<Rightarrow> 'p detector \<Rightarrow> 'x \<Rightarrow> int list option
     \<Rightarrow> 'p detector \<times> (error + int ndarray)" where
  "fit_then_predict cls self X y =
     (case fit cls self X y of
        (self1, Inl e) \<Rightarrow> (self1, Inl e)
      | (self1, Inr _) \<Rightarrow> predict cls self1 X)"

definition od_fit_then_predict ::
  "('p, 'x, 'kw) od_detector_class \<Rightarrow> 'p od_detector \<Rightarrow> 'x \<Rightarrow> 'kw
     \<Rightarrow> 'p od_detector \<times> (error + int ndarray)" where
  "od_fit_then_predict cls self X fit_params =
     (case od_fit cls self X fit_params of
        (self1, Inl e) \<Rightarrow> (self1, Inl e)
      | (self1, Inr _) \<Rightarrow> od_predict cls self1 (Some X) None)"

section \<open>kenchi/visualization.py\<close>

text \<open>
  The plotting library is outside the repository. Its calls are recorded in the order
  they are made, with their arguments, on the axes they are made on; what they draw, and
  whether they raise, is not modelled.
\<close>

datatype bins_value = BinsInt nat | BinsStr string | BinsArr "float64 list"

datatype 'kw call =
    Set_title string
  | Set_xlabel string
  | Set_ylabel string
  | Hlines float64 float64 float64
  | Set_xlim "float64 \<times> float64"
  | Set_ylim "float64 \<times> float64"
  | Grid bool
  | Plot "int list" "float64 list" 'kw
  | Set_tick_params_labelleft bool
  | Hist "float64 list" bins_value
  | Savefig string

record 'kw axes =
  figsize_of :: "(real \<times> real) option"
  calls :: "'kw call list"
  ax_hist_y_of :: "'kw call list option"

record 'kw plot_options =
  ax :: "'kw axes option"
  bins :: bins_value
  figsize :: "(real \<times> real) option"
  filepath :: "string option"
  grid :: bool
  hist :: bool
  threshold :: "float64 option"
  title :: "string option"
  xlabel :: "string option"
  xlim :: "(float64 \<times> float64) option"
  ylabel :: "string option"
  ylim :: "(float64 \<times> float64) option"
  kwargs :: 'kw




section \<open>Example detectors\<close>

text \<open>
  Concrete subclasses, to run the base classes on. The first scores a sample by its
  first feature and learns the largest training score as a scalar threshold.
\<close>

definition first_feature :: "float64 list \<Rightarrow> float64" where
  "first_feature row = (case row of [] \<Rightarrow> NaN | x # _ \<Rightarrow> x)"

definition accept_X_y :: "'x \<Rightarrow> int list \<Rightarrow> error + ('x \<times> int list)" where
  "accept_X_y X y = Inr (X, y)"

definition first_feature_class :: "(unit, float64 list list) detector_class" where
  "first_feature_class =
     \<lparr> check_array = Inr,
       check_X_y = accept_X_y,
       compute_anomaly_score = (\<lambda>self X. (self, Inr (Arr1 (map first_feature X)))),
       fit = (\<lambda>self X y.
                case np_max (map first_feature X) of
                  Inl e \<Rightarrow> (self, Inl e)
                | Inr m \<Rightarrow> (self \<lparr> underscore_threshold := Some (Scalar m) \<rparr>, Inr ())) \<rparr>"

text \<open>
  The second scores every feature by its own value and takes the per-column boundaries
  from its constructor parameters.
\<close>

definition featurewise_class :: "(float64 list, float64 list list) detector_class" where
  "featurewise_class =
     \<lparr> check_array = Inr,
       check_X_y = accept_X_y,
       compute_anomaly_score = (\<lambda>self X. (self, Inr (Arr2 X))),
       fit = (\<lambda>self X y.
                (self \<lparr> underscore_threshold := Some (PerColumn (params self)) \<rparr>, Inr ())) \<rparr>"

text \<open>
  A detector for the other module that scores a sample by its first feature. It keeps
  the scores of the training samples, which are its scores when \<open>X\<close> is omitted, and
  learns the largest of them as threshold.
\<close>

definition feature_score_class :: "(float64 list, float64 list list, unit) od_detector_class" where
  "feature_score_class =
     \<lparr> od_fit = (\<lambda>self X kw.
                   case np_max (map first_feature X) of
                     Inl e \<Rightarrow> (self, Inl e)
                   | Inr m \<Rightarrow> (self \<lparr> od_params := map first_feature X,
                                      threshold_underscore := Some m \<rparr>, Inr ())),
       anomaly_score = (\<lambda>self X.
                   case X of
                     None \<Rightarrow> (self, Inr (Arr1 (od_params self)))
                   | Some X1 \<Rightarrow> (self, Inr (Arr1 (map first_feature X1)))) \<rparr>"

text \<open>
  A nearest-neighbour detector for the other module, on one-dimensional data. It keeps
  the training points. The score of a new sample is its distance to the nearest training
  point; without \<open>X\<close>, the score of a training point is its distance to the nearest
  other training point.
\<close>

fun nearest :: "real \<Rightarrow> real list \<Rightarrow> float64" where
  "nearest x [] = PInf"
| "nearest x (y # ys) =
     (case nearest x ys of
        Fin d \<Rightarrow> Fin (min \<bar>x - y\<bar> d)
      | _ \<Rightarrow> Fin \<bar>x - y\<bar>)"

fun leave_one_out :: "real list \<Rightarrow> real list \<Rightarrow> float64 list" where
  "leave_one_out seen [] = []"
| "leave_one_out seen (x # rest) =
     nearest x (seen @ rest) # leave_one_out (seen @ [x]) rest"

definition neighbour_class :: "(real list, real list, unit) od_detector_class" where
  "neighbour_class =
     \<lparr> od_fit = (\<lambda>self X kw.
                   (self \<lparr> od_params := X, threshold_underscore := Some (Fin 1) \<rparr>, Inr ())),
       anomaly_score = (\<lambda>self X.
                   case X of
                     None \<Rightarrow> (self, Inr (Arr1 (leave_one_out [] (od_params self))))
                   | Some X1 \<Rightarrow> (self, Inr (Arr1 (map (\<lambda>x. nearest x (od_params self)) X1)))) \<rparr>"

section \<open>Comparisons, labels and the two predict methods\<close>

lemma fmul_NaN_right: "fmul x NaN = NaN"
  by (cases x) simp_all

lemma feq_not_fgt: "feq x t \<Longrightarrow> \<not> fgt x t"
  by (cases x; cases t) auto

lemma feq_fle: "feq x t \<Longrightarrow> fle x t"
  by (cases x; cases t) (auto simp: fle_def)

lemma elements_astype_int32: "elements (astype_int32 b) \<subseteq> {0, 1}"
  by (cases b) (auto simp: astype_int32_def)

lemma elements_np_where_le: "elements (np_where_le a t) \<subseteq> {1, - 1}"
  by (cases a) (auto simp: np_where_le_def)

lemma astype_int32_np_greater_Scalar:
  "np_greater a (Scalar t) = Inr b \<Longrightarrow>
     astype_int32 b = map_ndarray (\<lambda>x. if fgt x t then 1 else 0) a"
  by (cases a) (auto simp: astype_int32_def)

lemma predict_labels_in_01:
  assumes "predict cls self X = (self', Inr labels)"
  shows "elements labels \<subseteq> {0, 1}"
  using assms elements_astype_int32
  by (auto simp: predict_def split: sum.splits prod.splits if_splits)

lemma predict_Scalar:
  assumes "check_array cls X = Inr X1"
    and "underscore_threshold self = Some (Scalar t)"
    and "compute_anomaly_score cls self X1 = (self, Inr a)"
  shows "predict cls self X = (self, Inr (map_ndarray (\<lambda>x. if fgt x t then 1 else 0) a))"
  using assms
  by (simp add: predict_def get_underscore_threshold_def astype_int32_np_greater_Scalar)

lemma od_predict_fitted:
  assumes "threshold_underscore d = Some t"
    and "anomaly_score cls d X = (d1, Inr a)"
  shows "od_predict cls d X thr =
           (d1, Inr (np_where_le a (case thr of None \<Rightarrow> t | Some u \<Rightarrow> u)))"
  using assms
  by (simp add: od_predict_def check_is_fitted_def get_threshold_underscore_def
           split: option.splits)

lemma od_predict_labels:
  assumes "od_predict cls d X thr = (d', Inr labels)"
  shows "elements labels \<subseteq> {1, - 1}"
  using assms elements_np_where_le
  by (auto simp: od_predict_def split: sum.splits prod.splits if_splits)

section \<open>Frame and shape lemmas\<close>

lemma funpow_fixed: "f x = x \<Longrightarrow> (f ^^ n) x = x"
  by (induction n) simp_all

lemma predict_state_unchanged:
  assumes "\<forall>X1. fst (compute_anomaly_score cls self X1) = self"
  shows "fst (predict cls self X) = self"
proof (cases "check_array cls X")
  case (Inl e)
  then show ?thesis by (simp add: predict_def)
next
  case (Inr X1)
  obtain r where "compute_anomaly_score cls self X1 = (self, r)"
    using assms by (metis prod.collapse)
  with Inr show ?thesis
    by (simp add: predict_def split: sum.splits)
qed

lemma score_state_unchanged:
  assumes "\<forall>X1. fst (compute_anomaly_score cls self X1) = self"
  shows "fst (score cls self X y) = self"
proof (cases "check_X_y cls X y")
  case (Inl e)
  then show ?thesis by (simp add: score_def)
next
  case (Inr v)
  obtain X1 y1 where v: "v = (X1, y1)" by (cases v)
  obtain r where p: "predict cls self X1 = (self, r)"
    using predict_state_unchanged [OF assms, of X1] by (metis prod.collapse)
  show ?thesis using Inr v p
    by (simp add: score_def Let_def split: sum.splits list.splits)
qed

lemma od_predict_state_unchanged:
  assumes "\<forall>X1. fst (anomaly_score cls d X1) = d"
  shows "fst (od_predict cls d X thr) = d"
proof -
  obtain r where "anomaly_score cls d X = (d, r)"
    using assms by (metis prod.collapse)
  then show ?thesis
    by (simp add: od_predict_def split: sum.splits)
qed

lemma traverse_broadcast_rows:
  assumes "\<forall>r \<in> set rows. length r = length ts"
  shows "traverse (\<lambda>r. broadcast f r ts) rows = Inr (map (\<lambda>r. map2 f r ts) rows)"
  using assms by (induction rows) (simp_all add: broadcast_def)

lemma any_map2_iff:
  assumes "length r = length ts"
  shows "(\<exists>b \<in> set (map2 f r ts). b) \<longleftrightarrow> (\<exists>j < length ts. f (r ! j) (ts ! j))"
  using assms by (auto simp: set_zip)

section \<open>The confusion matrix and the score\<close>

lemma count_pairs_absent: "i \<notin> set y_true \<Longrightarrow> count_pairs y_true y_pred i j = 0"
  by (auto simp: count_pairs_def filter_empty_conv dest: set_zip_leftD)






lemma true_divide_zero: "true_divide 0 0 = NaN"
  by (simp add: true_divide_def)


lemma score_eval:
  assumes "check_X_y cls X y = Inr (X1, y1)"
    and "predict cls self X1 = (self1, Inr (Arr1 p))"
    and "length p = length y1"
    and "0 \<in> set y1 \<or> 1 \<in> set y1"
  shows "score cls self X y =
           (self1, Inr (let r0 = true_divide (count_pairs y1 p 0 0)
                                   (count_pairs y1 p 0 1 + count_pairs y1 p 0 0);
                            r1 = true_divide (count_pairs y1 p 1 1)
                                   (count_pairs y1 p 1 1 + count_pairs y1 p 1 0)
                        in fdiv (fmul (fmul (Fin 2) r0) r1) (fadd r0 r1)))"
  using assms by (auto simp: score_def confusion_matrix_def Let_def)

section \<open>Claims\<close>

text \<open>
  C1, as the code has it. Every element of a label array that \<open>predict\<close> returns is one
  of the two labels of its module: 0 or 1 in kenchi/base, 1 or -1 in outlier\_detection.
  With a scalar threshold, kenchi/base gives 1 exactly where the score is greater than
  the threshold and 0 elsewhere. The other module gives 1 exactly where the score is less
  than or equal to the threshold and -1 elsewhere; a comparison with NaN is false, so it
  gives -1 where the score exceeds the threshold and also where the score or the
  threshold is NaN.
\<close>

theorem predict_labels_by_comparison:
  "(predict cls self X = (self', Inr labels) \<longrightarrow> elements labels \<subseteq> {0, 1})
   \<and> (check_array cls X = Inr X1 \<and> underscore_threshold self = Some (Scalar t)
        \<and> compute_anomaly_score cls self X1 = (self, Inr a)
      \<longrightarrow> predict cls self X = (self, Inr (map_ndarray (\<lambda>x. if fgt x t then 1 else 0) a)))
   \<and> (od_predict ocls d Xo thr = (d', Inr olabels) \<longrightarrow> elements olabels \<subseteq> {1, - 1})
   \<and> (threshold_underscore d = Some u \<and> anomaly_score ocls d Xo = (d1, Inr b)
      \<longrightarrow> od_predict ocls d Xo thr
            = (d1, Inr (map_ndarray
                         (\<lambda>x. if fle x (case thr of None \<Rightarrow> u | Some v \<Rightarrow> v) then 1 else - 1)
                         b)))
   \<and> (fle x w \<longleftrightarrow> x \<noteq> NaN \<and> w \<noteq> NaN \<and> \<not> fgt x w)"
proof (intro conjI impI)
  assume "predict cls self X = (self', Inr labels)"
  then show "elements labels \<subseteq> {0, 1}" by (rule predict_labels_in_01)
next
  assume "check_array cls X = Inr X1 \<and> underscore_threshold self = Some (Scalar t)
        \<and> compute_anomaly_score cls self X1 = (self, Inr a)"
  then show "predict cls self X = (self, Inr (map_ndarray (\<lambda>x. if fgt x t then 1 else 0) a))"
    by (simp add: predict_Scalar)
next
  assume "od_predict ocls d Xo thr = (d', Inr olabels)"
  then show "elements olabels \<subseteq> {1, - 1}" by (rule od_predict_labels)
next
  assume "threshold_underscore d = Some u \<and> anomaly_score ocls d Xo = (d1, Inr b)"
  then show "od_predict ocls d Xo thr
            = (d1, Inr (map_ndarray
                         (\<lambda>x. if fle x (case thr of None \<Rightarrow> u | Some v \<Rightarrow> v) then 1 else - 1)
                         b))"
    by (simp add: od_predict_fitted np_where_le_def)
next
  show "fle x w \<longleftrightarrow> x \<noteq> NaN \<and> w \<noteq> NaN \<and> \<not> fgt x w" by (simp add: fle_def)
qed

text \<open>The theorem of C1 on the two example detectors, with a NaN among the scores.\<close>

theorem predict_labels_by_comparison_witness:
  "predict first_feature_class \<lparr>params = (), underscore_threshold = Some (Scalar (Fin 2))\<rparr>
       [[Fin 1], [Fin 3], [Fin 2], [NaN]]
     = (\<lparr>params = (), underscore_threshold = Some (Scalar (Fin 2))\<rparr>, Inr (Arr1 [0, 1, 0, 0]))
   \<and> elements (Arr1 [0, 1, 0, 0 :: int]) \<subseteq> {0, 1}
   \<and> od_predict feature_score_class \<lparr>od_params = [], threshold_underscore = Some (Fin 2)\<rparr>
       (Some [[Fin 1], [Fin 3], [Fin 2], [NaN]]) None
     = (\<lparr>od_params = [], threshold_underscore = Some (Fin 2)\<rparr>, Inr (Arr1 [1, - 1, 1, - 1]))
   \<and> elements (Arr1 [1, - 1, 1, - 1 :: int]) \<subseteq> {1, - 1}"
  using predict_labels_by_comparison
    [of first_feature_class "\<lparr>params = (), underscore_threshold = Some (Scalar (Fin 2))\<rparr>"
        "[[Fin 1], [Fin 3], [Fin 2], [NaN]]"
        "\<lparr>params = (), underscore_threshold = Some (Scalar (Fin 2))\<rparr>" "Arr1 [0, 1, 0, 0]"
        "[[Fin 1], [Fin 3], [Fin 2], [NaN]]" "Fin 2" "Arr1 [Fin 1, Fin 3, Fin 2, NaN]"
        feature_score_class "\<lparr>od_params = [], threshold_underscore = Some (Fin 2)\<rparr>"
        "Some [[Fin 1], [Fin 3], [Fin 2], [NaN]]" None
        "\<lparr>od_params = [], threshold_underscore = Some (Fin 2)\<rparr>" "Arr1 [1, - 1, 1, - 1]"
        "Fin 2" "\<lparr>od_params = [], threshold_underscore = Some (Fin 2)\<rparr>"
        "Arr1 [Fin 1, Fin 3, Fin 2, NaN]"]
  by (simp add: first_feature_class_def feature_score_class_def first_feature_def fle_def)

text \<open>
  C1 as stated fails in the outlier\_detection module. A sample whose score is NaN does
  not exceed the threshold 2, and is labelled -1; so is a sample with the score 1 when
  the threshold supplied to \<open>predict\<close> is NaN.
\<close>

theorem od_predict_NaN_counterexample:
  "snd (anomaly_score feature_score_class \<lparr>od_params = [], threshold_underscore = Some (Fin 2)\<rparr>
          (Some [[NaN]])) = Inr (Arr1 [NaN])
   \<and> \<not> fgt NaN (Fin 2)
   \<and> snd (od_predict feature_score_class \<lparr>od_params = [], threshold_underscore = Some (Fin 2)\<rparr>
          (Some [[NaN]]) None) = Inr (Arr1 [- 1])
   \<and> snd (anomaly_score feature_score_class \<lparr>od_params = [], threshold_underscore = Some (Fin 2)\<rparr>
          (Some [[Fin 1]])) = Inr (Arr1 [Fin 1])
   \<and> \<not> fgt (Fin 1) NaN
   \<and> snd (od_predict feature_score_class \<lparr>od_params = [], threshold_underscore = Some (Fin 2)\<rparr>
          (Some [[Fin 1]]) (Some NaN)) = Inr (Arr1 [- 1])"
  by (simp add: od_predict_def check_is_fitted_def get_threshold_underscore_def np_where_le_def
        feature_score_class_def first_feature_def fle_def)

text \<open>
  C2, as the code has it. In kenchi/base, \<open>fit_predict(X)\<close> returns what \<open>fit(X)\<close> followed
  by \<open>predict(X)\<close> returns on the same detector. In outlier\_detection, \<open>fit_predict(X)\<close>
  is \<open>fit(X)\<close> followed by \<open>predict()\<close> with \<open>X\<close> omitted; it returns what \<open>fit(X)\<close> followed
  by \<open>predict(X)\<close> returns whenever the detector that \<open>fit\<close> leaves scores the omitted \<open>X\<close>
  as it scores \<open>X\<close>.
\<close>

theorem fit_predict_composition:
  "fit_predict cls self X y = fit_then_predict cls self X y
   \<and> od_fit_predict ocls d Xo thr kw
     = (case od_fit ocls d Xo kw of
          (d1, Inl e) \<Rightarrow> (d1, Inl e)
        | (d1, Inr u) \<Rightarrow> od_predict ocls d1 None thr)
   \<and> (anomaly_score ocls (fst (od_fit ocls d Xo kw)) None
        = anomaly_score ocls (fst (od_fit ocls d Xo kw)) (Some Xo)
      \<longrightarrow> od_fit_predict ocls d Xo None kw = od_fit_then_predict ocls d Xo kw)"
proof (intro conjI impI)
  show "fit_predict cls self X y = fit_then_predict cls self X y"
    by (simp add: fit_predict_def fit_then_predict_def)
next
  show "od_fit_predict ocls d Xo thr kw
     = (case od_fit ocls d Xo kw of
          (d1, Inl e) \<Rightarrow> (d1, Inl e)
        | (d1, Inr u) \<Rightarrow> od_predict ocls d1 None thr)"
    by (simp add: od_fit_predict_def)
next
  assume "anomaly_score ocls (fst (od_fit ocls d Xo kw)) None
        = anomaly_score ocls (fst (od_fit ocls d Xo kw)) (Some Xo)"
  then show "od_fit_predict ocls d Xo None kw = od_fit_then_predict ocls d Xo kw"
    by (cases "od_fit ocls d Xo kw")
       (simp add: od_fit_predict_def od_fit_then_predict_def od_predict_def
             split: sum.splits)
qed

text \<open>
  The theorem of C2 on the detector that keeps the training scores: without \<open>X\<close> it
  returns them, and they are the scores of \<open>X\<close>.
\<close>

theorem fit_predict_composition_witness:
  "anomaly_score feature_score_class
       (fst (od_fit feature_score_class \<lparr>od_params = [], threshold_underscore = None\<rparr>
               [[Fin 1], [Fin 3]] ())) None
     = anomaly_score feature_score_class
         (fst (od_fit feature_score_class \<lparr>od_params = [], threshold_underscore = None\<rparr>
                 [[Fin 1], [Fin 3]] ())) (Some [[Fin 1], [Fin 3]])
   \<and> od_fit_predict feature_score_class \<lparr>od_params = [], threshold_underscore = None\<rparr>
       [[Fin 1], [Fin 3]] None ()
     = od_fit_then_predict feature_score_class \<lparr>od_params = [], threshold_underscore = None\<rparr>
         [[Fin 1], [Fin 3]] ()
   \<and> od_fit_then_predict feature_score_class \<lparr>od_params = [], threshold_underscore = None\<rparr>
       [[Fin 1], [Fin 3]] ()
     = (\<lparr>od_params = [Fin 1, Fin 3], threshold_underscore = Some (Fin 3)\<rparr>,
        Inr (Arr1 [1, 1]))"
proof -
  let ?d = "\<lparr>od_params = [] :: float64 list, threshold_underscore = None\<rparr>"
  let ?d2 = "\<lparr>od_params = [Fin 1, Fin 3], threshold_underscore = Some (Fin 3)\<rparr>"
  let ?X = "[[Fin 1], [Fin 3]]"
  have f: "od_fit feature_score_class ?d ?X () = (?d2, Inr ())"
    by (simp add: feature_score_class_def first_feature_def fmax_def)
  have h: "anomaly_score feature_score_class (fst (od_fit feature_score_class ?d ?X ())) None
         = anomaly_score feature_score_class (fst (od_fit feature_score_class ?d ?X ()))
             (Some ?X)"
    unfolding f by (simp add: feature_score_class_def first_feature_def)
  have p: "od_fit_then_predict feature_score_class ?d ?X () = (?d2, Inr (Arr1 [1, 1]))"
    unfolding od_fit_then_predict_def f
    by (simp add: od_predict_def check_is_fitted_def get_threshold_underscore_def
          np_where_le_def feature_score_class_def first_feature_def fle_def)
  have c: "od_fit_predict feature_score_class ?d ?X None ()
         = od_fit_then_predict feature_score_class ?d ?X ()"
    using h
      fit_predict_composition
        [of first_feature_class _ _ _ feature_score_class ?d ?X None "()"]
    by blast
  show ?thesis
    using h c p by blast
qed

text \<open>
  C2 as stated fails in the outlier\_detection module. The nearest-neighbour detector,
  fitted on the points 0 and 3, scores each training point 3 when \<open>X\<close> is omitted (the
  other point is 3 away) and 0 when the same points are passed as \<open>X\<close> (each is its own
  nearest neighbour): \<open>fit_predict\<close> labels both -1, \<open>fit\<close> then \<open>predict(X)\<close> both 1.
\<close>

theorem od_fit_predict_counterexample:
  "snd (od_fit_predict neighbour_class \<lparr>od_params = [], threshold_underscore = None\<rparr>
          [0, 3] None ()) = Inr (Arr1 [- 1, - 1])
   \<and> snd (od_fit_then_predict neighbour_class \<lparr>od_params = [], threshold_underscore = None\<rparr>
          [0, 3] ()) = Inr (Arr1 [1, 1])"
  by (simp add: od_fit_predict_def od_fit_then_predict_def od_predict_def check_is_fitted_def
        get_threshold_underscore_def np_where_le_def neighbour_class_def fle_def)

text \<open>
  C3. With a threshold \<open>t\<close> supplied, \<open>predict\<close> of the outlier\_detection module labels
  with \<open>t\<close> and nothing else of the detector: its result is the comparison of the scores
  with \<open>t\<close>, and two fitted detectors whose \<open>anomaly_score\<close> gives the same result on
  \<open>X\<close> give the same labels, whatever their fitted thresholds.
\<close>

theorem threshold_override_ignores_fitted:
  assumes "threshold_underscore d1 \<noteq> None" and "threshold_underscore d2 \<noteq> None"
    and "snd (anomaly_score cls1 d1 X) = snd (anomaly_score cls2 d2 X)"
  shows "snd (od_predict cls1 d1 X (Some t)) = snd (od_predict cls2 d2 X (Some t))
       \<and> snd (od_predict cls1 d1 X (Some t))
           = map_sum id (\<lambda>a. np_where_le a t) (snd (anomaly_score cls1 d1 X))"
  using assms
  by (auto simp: od_predict_def check_is_fitted_def split: prod.splits sum.splits)

text \<open>
  The theorem of C3 on two nearest-neighbour detectors with the training points 0 and 3
  and the fitted thresholds 1 and 5: their own labels for the sample 5 differ, the labels
  under the supplied threshold 2 agree.
\<close>

theorem threshold_override_ignores_fitted_witness:
  "snd (od_predict neighbour_class \<lparr>od_params = [0, 3], threshold_underscore = Some (Fin 1)\<rparr>
          (Some [5]) None) = Inr (Arr1 [- 1])
   \<and> snd (od_predict neighbour_class \<lparr>od_params = [0, 3], threshold_underscore = Some (Fin 5)\<rparr>
          (Some [5]) None) = Inr (Arr1 [1])
   \<and> snd (od_predict neighbour_class \<lparr>od_params = [0, 3], threshold_underscore = Some (Fin 1)\<rparr>
          (Some [5]) (Some (Fin 2)))
     = snd (od_predict neighbour_class \<lparr>od_params = [0, 3], threshold_underscore = Some (Fin 5)\<rparr>
          (Some [5]) (Some (Fin 2)))
   \<and> snd (od_predict neighbour_class \<lparr>od_params = [0, 3], threshold_underscore = Some (Fin 1)\<rparr>
          (Some [5]) (Some (Fin 2))) = Inr (Arr1 [1])"
proof -
  let ?d1 = "\<lparr>od_params = [0, 3 :: real], threshold_underscore = Some (Fin 1)\<rparr>"
  let ?d2 = "\<lparr>od_params = [0, 3 :: real], threshold_underscore = Some (Fin 5)\<rparr>"
  have h1: "threshold_underscore ?d1 \<noteq> None" and h2: "threshold_underscore ?d2 \<noteq> None"
    by simp_all
  have h3: "snd (anomaly_score neighbour_class ?d1 (Some [5]))
          = snd (anomaly_score neighbour_class ?d2 (Some [5]))"
    by (simp add: neighbour_class_def)
  have s: "snd (anomaly_score neighbour_class ?d1 (Some [5])) = Inr (Arr1 [Fin 2])"
    by (simp add: neighbour_class_def)
  have a: "snd (od_predict neighbour_class ?d1 (Some [5]) None) = Inr (Arr1 [- 1])"
    by (simp add: od_predict_def check_is_fitted_def get_threshold_underscore_def
          np_where_le_def neighbour_class_def fle_def)
  have b: "snd (od_predict neighbour_class ?d2 (Some [5]) None) = Inr (Arr1 [1])"
    by (simp add: od_predict_def check_is_fitted_def get_threshold_underscore_def
          np_where_le_def neighbour_class_def fle_def)
  note c = threshold_override_ignores_fitted [OF h1 h2 h3, of "Fin 2"]
  have c2: "snd (od_predict neighbour_class ?d1 (Some [5]) (Some (Fin 2))) = Inr (Arr1 [1])"
    using c [THEN conjunct2] s by (simp add: np_where_le_def fle_def)
  show ?thesis
    using a b c [THEN conjunct1] c2 by simp
qed

text \<open>
  C4, as the code has it. On a detector without the attribute \<open>threshold_\<close>, \<open>predict\<close> of
  the outlier\_detection module raises NotFittedError. On a detector without the attribute
  \<open>_threshold\<close>, \<open>predict\<close> of kenchi/base returns no labels either, and raises another
  error: the one of \<open>check_array\<close> if it rejects \<open>X\<close>, AttributeError otherwise.
\<close>

theorem predict_before_fit:
  "(threshold_underscore d = None \<longrightarrow> od_predict ocls d Xo thr = (d, Inl NotFittedError))
   \<and> (underscore_threshold self = None \<longrightarrow>
        predict cls self X
          = (self, Inl (case check_array cls X of Inl e \<Rightarrow> e | Inr _ \<Rightarrow> AttributeError)))"
  by (simp add: od_predict_def check_is_fitted_def predict_def get_underscore_threshold_def
           split: sum.splits)

text \<open>The theorem of C4 on an unfitted detector of each module.\<close>

theorem predict_before_fit_witness:
  "od_predict neighbour_class \<lparr>od_params = [], threshold_underscore = None\<rparr> (Some [1]) None
     = (\<lparr>od_params = [], threshold_underscore = None\<rparr>, Inl NotFittedError)
   \<and> predict first_feature_class \<lparr>params = (), underscore_threshold = None\<rparr> [[Fin 1]]
     = (\<lparr>params = (), underscore_threshold = None\<rparr>, Inl AttributeError)"
  using predict_before_fit
    [of "\<lparr>od_params = [], threshold_underscore = None\<rparr>" neighbour_class "Some [1]" None
        "\<lparr>params = (), underscore_threshold = None\<rparr>" first_feature_class "[[Fin 1]]"]
  by (simp add: first_feature_class_def)

text \<open>
  C4 as stated fails in kenchi/base: on an unfitted detector and a valid \<open>X\<close> the error
  is AttributeError, not the not-fitted error.
\<close>

theorem predict_before_fit_counterexample:
  "snd (predict first_feature_class \<lparr>params = (), underscore_threshold = None\<rparr> [[Fin 1]])
     = Inl AttributeError
   \<and> AttributeError \<noteq> NotFittedError"
  by (simp add: predict_def get_underscore_threshold_def first_feature_class_def)

text \<open>
  C5, as the code has it. When \<open>y\<close> holds exactly one of the classes 0 and 1 and \<open>predict\<close>
  returns one label per sample, \<open>score\<close> raises nothing: a division of zero by zero
  yields NaN, and NaN is what \<open>score\<close> returns.
\<close>

theorem score_NaN_when_class_absent:
  assumes "check_X_y cls X y = Inr (X1, y1)"
    and "predict cls self X1 = (self1, Inr (Arr1 p))"
    and "length p = length y1"
    and "(0 \<in> set y1) \<noteq> (1 \<in> set y1)"
  shows "score cls self X y = (self1, Inr NaN)"
proof -
  have e: "0 \<in> set y1 \<or> 1 \<in> set y1" using assms(4) by blast
  note s = score_eval [OF assms(1-3) e]
  show ?thesis
  proof (cases "0 \<in> set y1")
    case True
    then have "1 \<notin> set y1" using assms(4) by blast
    then show ?thesis
      using s by (simp add: count_pairs_absent true_divide_zero fmul_NaN_right Let_def)
  next
    case False
    then show ?thesis
      using s by (simp add: count_pairs_absent true_divide_zero Let_def)
  qed
qed

text \<open>The theorem of C5 on three samples all labelled 1.\<close>

theorem score_NaN_when_class_absent_witness:
  "(0 \<in> set [1, 1, 1 :: int]) \<noteq> (1 \<in> set [1, 1, 1 :: int])
   \<and> score first_feature_class \<lparr>params = (), underscore_threshold = Some (Scalar (Fin 2))\<rparr>
       [[Fin 1], [Fin 3], [Fin 2]] [1, 1, 1]
     = (\<lparr>params = (), underscore_threshold = Some (Scalar (Fin 2))\<rparr>, Inr NaN)"
proof -
  let ?d = "\<lparr>params = (), underscore_threshold = Some (Scalar (Fin 2))\<rparr>"
  let ?X = "[[Fin 1], [Fin 3], [Fin 2]]"
  have h1: "check_X_y first_feature_class ?X [1, 1, 1] = Inr (?X, [1, 1, 1])"
    by (simp add: first_feature_class_def accept_X_y_def)
  have h2: "predict first_feature_class ?d ?X = (?d, Inr (Arr1 [0, 1, 0]))"
    by (simp add: predict_def get_underscore_threshold_def astype_int32_def
          first_feature_class_def first_feature_def)
  have h3: "length [0, 1, 0 :: int] = length [1, 1, 1 :: int]" by simp
  have h4: "(0 \<in> set [1, 1, 1 :: int]) \<noteq> (1 \<in> set [1, 1, 1 :: int])" by simp
  show ?thesis
    using h4 score_NaN_when_class_absent [OF h1 h2 h3 h4] by simp
qed

text \<open>
  C5 as stated fails: with three samples all labelled 0, the predictions 0, 1, 0 give
  \<open>tp = fn = 0\<close>, and \<open>score\<close> returns NaN instead of raising.
\<close>

theorem score_NaN_counterexample:
  "score first_feature_class \<lparr>params = (), underscore_threshold = Some (Scalar (Fin 2))\<rparr>
       [[Fin 1], [Fin 3], [Fin 2]] [0, 0, 0]
     = (\<lparr>params = (), underscore_threshold = Some (Scalar (Fin 2))\<rparr>, Inr NaN)"
  by (simp add: score_def predict_def get_underscore_threshold_def astype_int32_def
        confusion_matrix_def count_pairs_def true_divide_def first_feature_class_def
        first_feature_def accept_X_y_def)



text \<open>
  C7. With a per-column threshold and a score matrix of as many columns, \<open>predict\<close> of
  kenchi/base labels a sample 1 exactly when its score exceeds the boundary in at least
  one column, and 0 when it does in none.
\<close>

theorem predict_per_column:
  assumes "check_array cls X = Inr X1"
    and "underscore_threshold self = Some (PerColumn ts)"
    and "compute_anomaly_score cls self X1 = (self, Inr (Arr2 rows))"
    and "\<forall>r \<in> set rows. length r = length ts"
  shows "predict cls self X =
           (self, Inr (Arr1 (map (\<lambda>r. if \<exists>j < length ts. fgt (r ! j) (ts ! j) then 1 else 0)
                              rows)))"
proof -
  have "np_greater (Arr2 rows) (PerColumn ts) = Inr (Arr2 (map (\<lambda>r. map2 fgt r ts) rows))"
    using assms(4) by (simp add: traverse_broadcast_rows)
  moreover have "map (\<lambda>r. if \<exists>b \<in> set (map2 fgt r ts). b then 1 else 0 :: int) rows
      = map (\<lambda>r. if \<exists>j < length ts. fgt (r ! j) (ts ! j) then 1 else 0) rows"
    using assms(4) any_map2_iff [of _ ts fgt] by (intro map_cong) auto
  ultimately show ?thesis
    using assms(1-3)
    by (simp add: predict_def get_underscore_threshold_def astype_int32_def o_def)
qed

text \<open>
  The theorem of C7 on three samples of two features with the boundaries 2 and 5: the
  first exceeds in the second column, the third in the first, the second in none.
\<close>

theorem predict_per_column_witness:
  "predict featurewise_class \<lparr>params = [], underscore_threshold = Some (PerColumn [Fin 2, Fin 5])\<rparr>
       [[Fin 1, Fin 6], [Fin 2, Fin 5], [Fin 3, Fin 0]]
     = (\<lparr>params = [], underscore_threshold = Some (PerColumn [Fin 2, Fin 5])\<rparr>,
        Inr (Arr1 [1, 0, 1]))"
proof -
  let ?d = "\<lparr>params = [] :: float64 list, underscore_threshold = Some (PerColumn [Fin 2, Fin 5])\<rparr>"
  let ?X = "[[Fin 1, Fin 6], [Fin 2, Fin 5], [Fin 3, Fin 0]]"
  have h1: "check_array featurewise_class ?X = Inr ?X"
    by (simp add: featurewise_class_def)
  have h2: "underscore_threshold ?d = Some (PerColumn [Fin 2, Fin 5])" by simp
  have h3: "compute_anomaly_score featurewise_class ?d ?X = (?d, Inr (Arr2 ?X))"
    by (simp add: featurewise_class_def)
  have h4: "\<forall>r \<in> set ?X. length r = length [Fin 2, Fin 5]" by simp
  have e: "\<And>P. (\<exists>j < Suc (Suc 0). P j) \<longleftrightarrow> P 0 \<or> P (Suc 0)"
    by (auto simp: less_Suc_eq)
  show ?thesis
    using predict_per_column [OF h1 h2 h3 h4] by (simp add: e)
qed




text \<open>
  C9. If the detector's \<open>compute_anomaly_score\<close> (\<open>anomaly_score\<close> in the other module)
  leaves the detector as it is, which is what the abstract method is described to do,
  then so do \<open>predict\<close> and \<open>score\<close>, called once or any number of times: the detector,
  its threshold and its parameters are afterwards what they were.
\<close>

theorem queries_leave_detector_unchanged:
  "((\<forall>X1. fst (compute_anomaly_score cls self X1) = self) \<longrightarrow>
       fst (predict cls self X) = self \<and> fst (score cls self X y) = self
       \<and> ((\<lambda>s. fst (predict cls s X)) ^^ n) self = self
       \<and> ((\<lambda>s. fst (score cls s X y)) ^^ n) self = self)
   \<and> ((\<forall>X1. fst (anomaly_score ocls d X1) = d) \<longrightarrow>
       fst (od_predict ocls d Xo thr) = d
       \<and> ((\<lambda>s. fst (od_predict ocls s Xo thr)) ^^ n) d = d)"
  by (simp add: predict_state_unchanged score_state_unchanged od_predict_state_unchanged
        funpow_fixed)

text \<open>The theorem of C9 on the example detectors, for one call and for three in a row.\<close>

theorem queries_leave_detector_unchanged_witness:
  "fst (predict first_feature_class \<lparr>params = (), underscore_threshold = Some (Scalar (Fin 2))\<rparr>
          [[Fin 1], [Fin 3]])
     = \<lparr>params = (), underscore_threshold = Some (Scalar (Fin 2))\<rparr>
   \<and> fst (score first_feature_class \<lparr>params = (), underscore_threshold = Some (Scalar (Fin 2))\<rparr>
          [[Fin 1], [Fin 3]] [0, 1])
     = \<lparr>params = (), underscore_threshold = Some (Scalar (Fin 2))\<rparr>
   \<and> ((\<lambda>s. fst (score first_feature_class s [[Fin 1], [Fin 3]] [0, 1])) ^^ 3)
        \<lparr>params = (), underscore_threshold = Some (Scalar (Fin 2))\<rparr>
     = \<lparr>params = (), underscore_threshold = Some (Scalar (Fin 2))\<rparr>
   \<and> fst (od_predict feature_score_class \<lparr>od_params = [Fin 1], threshold_underscore = Some (Fin 1)\<rparr>
          None (Some (Fin 0)))
     = \<lparr>od_params = [Fin 1], threshold_underscore = Some (Fin 1)\<rparr>"
proof -
  have h1: "\<forall>X1. fst (compute_anomaly_score first_feature_class
                \<lparr>params = (), underscore_threshold = Some (Scalar (Fin 2))\<rparr> X1)
              = \<lparr>params = (), underscore_threshold = Some (Scalar (Fin 2))\<rparr>"
    by (simp add: first_feature_class_def)
  have h2: "\<forall>X1. fst (anomaly_score feature_score_class
                \<lparr>od_params = [Fin 1], threshold_underscore = Some (Fin 1)\<rparr> X1)
              = \<lparr>od_params = [Fin 1], threshold_underscore = Some (Fin 1)\<rparr>"
    by (simp add: feature_score_class_def split: option.splits)
  show ?thesis
    using h1 h2
      queries_leave_detector_unchanged
        [of first_feature_class "\<lparr>params = (), underscore_threshold = Some (Scalar (Fin 2))\<rparr>"
            "[[Fin 1], [Fin 3]]" "[0, 1]" 3 feature_score_class
            "\<lparr>od_params = [Fin 1], threshold_underscore = Some (Fin 1)\<rparr>" None "Some (Fin 0)"]
    by simp
qed

text \<open>
  C10. A sample whose score equals the scalar threshold is an inlier in both modules:
  kenchi/base labels it 0, outlier\_detection labels it 1.
\<close>

theorem boundary_score_is_inlier:
  "(check_array cls X = Inr X1 \<and> underscore_threshold self = Some (Scalar t)
      \<and> compute_anomaly_score cls self X1 = (self, Inr (Arr1 s)) \<and> i < length s
      \<and> feq (s ! i) t
    \<longrightarrow> (\<exists>labels. predict cls self X = (self, Inr (Arr1 labels))
           \<and> length labels = length s \<and> labels ! i = 0))
   \<and> (threshold_underscore d = Some u \<and> anomaly_score ocls d Xo = (d1, Inr (Arr1 r))
      \<and> j < length r \<and> feq (r ! j) (case thr of None \<Rightarrow> u | Some v \<Rightarrow> v)
    \<longrightarrow> (\<exists>labels. od_predict ocls d Xo thr = (d1, Inr (Arr1 labels))
           \<and> length labels = length r \<and> labels ! j = 1))"
proof (intro conjI impI)
  assume h: "check_array cls X = Inr X1 \<and> underscore_threshold self = Some (Scalar t)
      \<and> compute_anomaly_score cls self X1 = (self, Inr (Arr1 s)) \<and> i < length s
      \<and> feq (s ! i) t"
  then have "predict cls self X = (self, Inr (Arr1 (map (\<lambda>x. if fgt x t then 1 else 0) s)))"
    using predict_Scalar [of cls X X1 self t "Arr1 s"] by simp
  moreover have "map (\<lambda>x. if fgt x t then 1 else 0 :: int) s ! i = 0"
    using h feq_not_fgt by simp
  ultimately show "\<exists>labels. predict cls self X = (self, Inr (Arr1 labels))
           \<and> length labels = length s \<and> labels ! i = 0"
    by simp
next
  let ?t = "case thr of None \<Rightarrow> u | Some v \<Rightarrow> v"
  assume h: "threshold_underscore d = Some u \<and> anomaly_score ocls d Xo = (d1, Inr (Arr1 r))
      \<and> j < length r \<and> feq (r ! j) ?t"
  then have "od_predict ocls d Xo thr = (d1, Inr (Arr1 (map (\<lambda>x. if fle x ?t then 1 else - 1) r)))"
    using od_predict_fitted [of d u ocls Xo d1 "Arr1 r" thr] by (simp add: np_where_le_def)
  moreover have "map (\<lambda>x. if fle x ?t then 1 else - 1 :: int) r ! j = 1"
    using h feq_fle by simp
  ultimately show "\<exists>labels. od_predict ocls d Xo thr = (d1, Inr (Arr1 labels))
           \<and> length labels = length r \<and> labels ! j = 1"
    by simp
qed

text \<open>The theorem of C10 on a sample with the score 2, under the threshold 2.\<close>

theorem boundary_score_is_inlier_witness:
  "feq (Fin 2) (Fin 2)
   \<and> predict first_feature_class \<lparr>params = (), underscore_threshold = Some (Scalar (Fin 2))\<rparr>
       [[Fin 1], [Fin 2]]
     = (\<lparr>params = (), underscore_threshold = Some (Scalar (Fin 2))\<rparr>, Inr (Arr1 [0, 0]))
   \<and> od_predict feature_score_class \<lparr>od_params = [], threshold_underscore = Some (Fin 2)\<rparr>
       (Some [[Fin 1], [Fin 2]]) None
     = (\<lparr>od_params = [], threshold_underscore = Some (Fin 2)\<rparr>, Inr (Arr1 [1, 1]))"
  using boundary_score_is_inlier
    [of first_feature_class "[[Fin 1], [Fin 2]]" "[[Fin 1], [Fin 2]]"
        "\<lparr>params = (), underscore_threshold = Some (Scalar (Fin 2))\<rparr>" "Fin 2"
        "[Fin 1, Fin 2]" 1
        "\<lparr>od_params = [], threshold_underscore = Some (Fin 2)\<rparr>" "Fin 2"
        feature_score_class "Some [[Fin 1], [Fin 2]]"
        "\<lparr>od_params = [], threshold_underscore = Some (Fin 2)\<rparr>" "[Fin 1, Fin 2]" 1 None]
  by (simp add: first_feature_class_def feature_score_class_def first_feature_def fle_def
        predict_def get_underscore_threshold_def astype_int32_def od_predict_def
        check_is_fitted_def get_threshold_underscore_def np_where_le_def)

end
